theory Spec2Isabelle
  imports Complex_Main "HOL-Library.AList"
begin

section \<open>The endpoint-monitoring agent (class HTTPAnalyticsAgent)\<close>

text \<open>
  Conventions of the embedding.
  \<^item> Times are integer milliseconds since the epoch (\<open>Date.now()\<close>, \<open>getTime()\<close>).
    The wall clock is a stream \<open>clk\<close> of readings; the state counts the readings taken
    (\<open>reads\<close>), so every \<open>Date.now()\<close> and \<open>new Date()\<close> of the source is one reading
    of its own, and time may pass between any two of them.
  \<^item> A JavaScript \<open>Map\<close> is an association list with distinct keys in insertion order:
    \<open>get\<close> is \<open>map_of\<close>, \<open>set\<close> is \<open>AList.update\<close> (an existing key keeps its place, a
    new one goes to the end), \<open>delete\<close> is \<open>AList.delete\<close>, \<open>clear\<close> gives \<open>[]\<close>.
  \<^item> Status codes, response times of probes and timestamps are integers; the quotients
    the source forms from them are real numbers. A quotient with denominator 0 is NaN in
    the source, and every comparison with NaN is false: the model writes that case out.
  \<^item> The text-generation service and the probed network are parameters.
\<close>

record EndpointMonitorConfig =
  url :: string
  interval :: int
  expectedStatus :: "int list option"
  alertThreshold :: "int option"

record EndpointCheckResult =
  c_url :: string
  status :: int
  responseTime :: int
  timestamp :: int
  success :: bool
  headers :: "(string \<times> string) list option"
  error :: "string option"

datatype insight_type = anomaly | trend | alert | recommendation

record insight_data =
  d_url :: string
  rootCauses :: "string list"
  recommendations :: "string list"
  checks :: "EndpointCheckResult list"

record AnalyticsInsight =
  i_timestamp :: int
  i_type :: insight_type
  severity :: string
  message :: string
  data :: insight_data

text \<open>The object that \<open>JSON.parse\<close> yields from the reply of the text-generation service.\<close>

record aiResponse =
  r_analysis :: string
  r_rootCauses :: "string list"
  r_recommendations :: "string list"
  r_severity :: string

text \<open>
  The service, as seen from \<open>generateInsight\<close>: the prompt is built from the url, the
  sampled checks and the context, so the service is a function of these three. \<open>None\<close>
  stands for every exception raised inside the \<open>try\<close> block (the request fails, or the
  reply is not JSON); \<open>generateInsight\<close> catches it and logs it.
\<close>

type_synonym ai_service = "string \<Rightarrow> EndpointCheckResult list \<Rightarrow> string \<Rightarrow> aiResponse option"

text \<open>What \<open>fetch\<close> does: a response (status, \<open>ok\<close>, headers) or an exception with a message.\<close>

datatype fetch_outcome =
  Response int bool "(string \<times> string) list"
| Failure string

text \<open>The events handed to the \<open>EventEmitter\<close> by this class.\<close>

datatype event =
  CheckCompleted EndpointCheckResult
| InsightEvent AnalyticsInsight

text \<open>
  The agent's fields, and the part of the runtime that its methods act on: the live
  interval timers (handle and the configuration the callback closes over), the next fresh
  handle, the events emitted, the requests sent to the text-generation service (url and
  context), and the number of clock readings taken.
\<close>

record agent =
  isRunning :: bool
  monitoringIntervals :: "(string \<times> nat) list"
  endpointHistory :: "(string \<times> EndpointCheckResult list) list"
  insightCache :: "(string \<times> int) list"
  timers :: "(nat \<times> EndpointMonitorConfig) list"
  nextHandle :: nat
  emitted :: "event list"
  requests :: "(string \<times> string) list"
  reads :: nat

text \<open>The agent right after construction.\<close>

definition new_agent :: agent where
  "new_agent =
     \<lparr>isRunning = False, monitoringIntervals = [], endpointHistory = [], insightCache = [],
      timers = [], nextHandle = 0, emitted = [], requests = [], reads = 0\<rparr>"

subsection \<open>Array helpers\<close>

text \<open>\<open>xs.slice(-n)\<close>: the last \<open>n\<close> elements, all of them when there are fewer.\<close>

definition slice_last :: "nat \<Rightarrow> 'a list \<Rightarrow> 'a list" where
  "slice_last n xs = drop (length xs - n) xs"

text \<open>
  \<open>Array.from(new Set(xs))\<close>: a \<open>Set\<close> keeps the first occurrence of each value, in
  insertion order.
\<close>

fun uniqueInOrder :: "'a list \<Rightarrow> 'a list \<Rightarrow> 'a list" where
  "uniqueInOrder seen [] = seen"
| "uniqueInOrder seen (x # xs) =
     (if x \<in> set seen then uniqueInOrder seen xs else uniqueInOrder (seen @ [x]) xs)"

definition array_from_set :: "'a list \<Rightarrow> 'a list" where
  "array_from_set xs = uniqueInOrder [] xs"

subsection \<open>checkEndpoint\<close>

text \<open>
  Three clock readings: \<open>startTime\<close>, the end of the request, and the timestamp of the
  result. A transport failure gives status 0 and \<open>success = false\<close>.
\<close>

definition checkEndpoint ::
  "(nat \<Rightarrow> int) \<Rightarrow> fetch_outcome \<Rightarrow> string \<Rightarrow> agent \<Rightarrow> EndpointCheckResult \<times> agent" where
  "checkEndpoint clk outcome u s =
     (let startTime = clk (reads s);
          elapsed = clk (reads s + 1) - startTime;
          stamp = clk (reads s + 2);
          s' = s\<lparr>reads := reads s + 3\<rparr>
      in case outcome of
           Response st ok hs \<Rightarrow>
             (\<lparr>c_url = u, status = st, responseTime = elapsed, timestamp = stamp,
               success = ok, headers = Some hs, error = None\<rparr>, s')
         | Failure msg \<Rightarrow>
             (\<lparr>c_url = u, status = 0, responseTime = elapsed, timestamp = stamp,
               success = False, headers = None, error = Some msg\<rparr>, s'))"

subsection \<open>generateInsight\<close>

definition generateInsight ::
  "ai_service \<Rightarrow> (nat \<Rightarrow> int) \<Rightarrow> string \<Rightarrow> EndpointCheckResult list \<Rightarrow> string \<Rightarrow> agent \<Rightarrow> agent" where
  "generateInsight ai clk u dat context s =
     (let s1 = s\<lparr>requests := requests s @ [(u, context)]\<rparr>
      in case ai u dat context of
           None \<Rightarrow> s1
         | Some r \<Rightarrow>
             s1\<lparr>emitted := emitted s1 @
                   [InsightEvent
                      \<lparr>i_timestamp = clk (reads s1), i_type = alert,
                       severity = r_severity r, message = r_analysis r,
                       data = \<lparr>d_url = u, rootCauses = r_rootCauses r,
                               recommendations = r_recommendations r, checks = dat\<rparr>\<rparr>],
                 reads := reads s1 + 1\<rparr>)"

subsection \<open>analyzeEndpointHealth\<close>

text \<open>
  The three conditions, on the sampled checks. For an empty sample the source divides
  0 by 0: the quotient is NaN and both comparisons are false.
\<close>

definition errorRateHigh :: "EndpointCheckResult list \<Rightarrow> bool" where
  "errorRateHigh recentChecks \<longleftrightarrow>
     recentChecks \<noteq> [] \<and>
     real (length (filter (\<lambda>c. \<not> success c) recentChecks)) / real (length recentChecks) > 0.3"

definition responseSlow :: "EndpointCheckResult list \<Rightarrow> bool" where
  "responseSlow recentChecks \<longleftrightarrow>
     recentChecks \<noteq> [] \<and>
     real_of_int (foldl (\<lambda>sum c. sum + responseTime c) 0 recentChecks)
       / real (length recentChecks) > 5000"

definition statusUnstable :: "EndpointCheckResult list \<Rightarrow> bool" where
  "statusUnstable recentChecks \<longleftrightarrow>
     length (array_from_set (map status recentChecks)) > 3"

text \<open>
  One rule of the source: when its condition holds, the cooldown timestamp is set to a
  fresh clock reading and \<open>generateInsight\<close> is awaited.
\<close>

definition fireRule ::
  "ai_service \<Rightarrow> (nat \<Rightarrow> int) \<Rightarrow> string \<Rightarrow> EndpointCheckResult list \<Rightarrow> bool \<Rightarrow> string \<Rightarrow> agent \<Rightarrow> agent" where
  "fireRule ai clk u recentChecks cond context s =
     (if cond
      then generateInsight ai clk u recentChecks context
             (s\<lparr>insightCache := AList.update u (clk (reads s)) (insightCache s),
                reads := reads s + 1\<rparr>)
      else s)"

definition evaluateRules ::
  "ai_service \<Rightarrow> (nat \<Rightarrow> int) \<Rightarrow> string \<Rightarrow> EndpointCheckResult list \<Rightarrow> agent \<Rightarrow> agent" where
  "evaluateRules ai clk u recentChecks s =
     fireRule ai clk u recentChecks (statusUnstable recentChecks) ''Unstable status codes detected''
       (fireRule ai clk u recentChecks (responseSlow recentChecks) ''Slow response time detected''
          (fireRule ai clk u recentChecks (errorRateHigh recentChecks) ''High error rate detected'' s))"

text \<open>
  The cooldown test \<open>lastInsight && Date.now() - lastInsight.getTime() < 5 * 60 * 1000\<close>:
  the clock is read only when the target has a cooldown timestamp.
\<close>

definition COOLDOWN_MS :: int where
  "COOLDOWN_MS = 5 * 60 * 1000"

definition analyzeEndpointHealth ::
  "ai_service \<Rightarrow> (nat \<Rightarrow> int) \<Rightarrow> EndpointMonitorConfig \<Rightarrow> EndpointCheckResult list \<Rightarrow> agent \<Rightarrow> agent" where
  "analyzeEndpointHealth ai clk config history s =
     (let recentChecks = slice_last 10 history
      in case map_of (insightCache s) (url config) of
           None \<Rightarrow> evaluateRules ai clk (url config) recentChecks s
         | Some lastInsight \<Rightarrow>
             (let now = clk (reads s); s0 = s\<lparr>reads := reads s + 1\<rparr>
              in if now - lastInsight < COOLDOWN_MS then s0
                 else evaluateRules ai clk (url config) recentChecks s0))"

subsection \<open>The monitoring timer\<close>

text \<open>
  The history update of the timer callback: push the result, and shift the oldest entry
  out when the length exceeds 100.
\<close>

definition pushHistory :: "EndpointCheckResult list \<Rightarrow> EndpointCheckResult \<Rightarrow> EndpointCheckResult list" where
  "pushHistory history result =
     (let h = history @ [result] in if length h > 100 then tl h else h)"

definition historyOf :: "agent \<Rightarrow> string \<Rightarrow> EndpointCheckResult list" where
  "historyOf s u = (case map_of (endpointHistory s) u of None \<Rightarrow> [] | Some h \<Rightarrow> h)"

text \<open>
  One run of the callback that \<open>monitorEndpoint\<close> hands to \<open>setInterval\<close>, with the
  outcome of the probe's \<open>fetch\<close> as a parameter. The run is taken as a whole: in the
  source other callbacks may run while it awaits the probe or the service, but the update
  of the history (lines 58 to 64) has no await inside. Nothing in its \<open>try\<close> block
  throws (\<open>checkEndpoint\<close> and \<open>generateInsight\<close> catch their own exceptions), so
  the \<open>catch\<close> branch and its error event do not occur.
\<close>

definition tick ::
  "ai_service \<Rightarrow> (nat \<Rightarrow> int) \<Rightarrow> EndpointMonitorConfig \<Rightarrow> fetch_outcome \<Rightarrow> agent \<Rightarrow> agent" where
  "tick ai clk config outcome s =
     (if \<not> isRunning s then s
      else
        (let (result, s1) = checkEndpoint clk outcome (url config) s;
             history = pushHistory (historyOf s1 (url config)) result;
             s2 = s1\<lparr>endpointHistory := AList.update (url config) history (endpointHistory s1),
                     emitted := emitted s1 @ [CheckCompleted result]\<rparr>
         in analyzeEndpointHealth ai clk config history s2))"

text \<open>
  A schedule: the callbacks of any targets' timers run one after the other on the event
  loop, each with its configuration and the outcome of its probe.
\<close>

fun ticks ::
  "ai_service \<Rightarrow> (nat \<Rightarrow> int) \<Rightarrow> (EndpointMonitorConfig \<times> fetch_outcome) list \<Rightarrow> agent \<Rightarrow> agent" where
  "ticks ai clk [] s = s"
| "ticks ai clk ((config, outcome) # rest) s = ticks ai clk rest (tick ai clk config outcome s)"

definition monitorEndpoint :: "EndpointMonitorConfig \<Rightarrow> agent \<Rightarrow> agent" where
  "monitorEndpoint config s =
     (let intervalId = nextHandle s
      in s\<lparr>timers := timers s @ [(intervalId, config)],
            nextHandle := Suc intervalId,
            monitoringIntervals := AList.update (url config) intervalId (monitoringIntervals s)\<rparr>)"

definition startMonitoring :: "EndpointMonitorConfig list \<Rightarrow> agent \<Rightarrow> agent" where
  "startMonitoring configs s = fold monitorEndpoint configs (s\<lparr>isRunning := True\<rparr>)"

text \<open>\<open>clearInterval\<close> removes a handle from the live timers.\<close>

definition clearInterval :: "nat \<Rightarrow> (nat \<times> EndpointMonitorConfig) list \<Rightarrow> (nat \<times> EndpointMonitorConfig) list" where
  "clearInterval h ts = filter (\<lambda>t. fst t \<noteq> h) ts"

definition stopMonitoring :: "agent \<Rightarrow> agent" where
  "stopMonitoring s =
     s\<lparr>isRunning := False,
       timers := fold (\<lambda>entry ts. clearInterval (snd entry) ts) (monitoringIntervals s) (timers s),
       monitoringIntervals := []\<rparr>"

datatype js_error = Error string

text \<open>
  \<open>addEndpoint\<close> either throws or registers the timer; the pair holds the outcome and the
  state the call leaves behind.
\<close>

definition addEndpoint :: "EndpointMonitorConfig \<Rightarrow> agent \<Rightarrow> (js_error + unit) \<times> agent" where
  "addEndpoint config s =
     (if \<not> isRunning s then (Inl (Error ''Agent is not running. Start monitoring first.''), s)
      else (Inr (), monitorEndpoint config s))"

text \<open>A timer handle is an object, hence truthy: the test is whether the map has the key.\<close>

definition removeEndpoint :: "string \<Rightarrow> agent \<Rightarrow> agent" where
  "removeEndpoint u s =
     (case map_of (monitoringIntervals s) u of
        None \<Rightarrow> s
      | Some intervalId \<Rightarrow>
          s\<lparr>timers := clearInterval intervalId (timers s),
            monitoringIntervals := AList.delete u (monitoringIntervals s)\<rparr>)"

subsection \<open>getEndpointStats\<close>

text \<open>
  \<open>successRate\<close> and \<open>avgResponseTime\<close> hold the numbers that the source then formats
  with \<open>toFixed\<close>.
\<close>

record EndpointStats =
  s_url :: string
  totalChecks :: nat
  successRate :: real
  avgResponseTime :: real
  statusCodes :: "int list"
  lastCheck :: EndpointCheckResult
  recentChecks :: "EndpointCheckResult list"

definition getEndpointStats :: "string \<Rightarrow> agent \<Rightarrow> EndpointStats option" where
  "getEndpointStats u s =
     (let history = (case map_of (endpointHistory s) u of None \<Rightarrow> [] | Some h \<Rightarrow> h)
      in if length history = 0 then None
         else Some
           \<lparr>s_url = u,
            totalChecks = length history,
            successRate = real (length (filter success history)) / real (length history) * 100,
            avgResponseTime =
              real_of_int (foldl (\<lambda>sum h. sum + responseTime h) 0 history) / real (length history),
            statusCodes = array_from_set (map status history),
            lastCheck = history ! (length history - 1),
            recentChecks = slice_last 10 history\<rparr>)"

section \<open>The sliding-window anomaly detector (function \<open>analyze\<close>)\<close>

text \<open>
  \<open>responseTime\<close> is optional in a \<open>Metric\<close>: \<open>None\<close> is the absent field. A
  latency is a finite JavaScript number, that is, a real number that binary64 represents;
  \<open>NaN\<close> and the infinities are not modelled.
\<close>

record Metric =
  statusCode :: int
  m_responseTime :: "real option"
  m_timestamp :: int

definition WINDOW_MS :: int where
  "WINDOW_MS = 60000"

definition MIN_SAMPLES :: nat where
  "MIN_SAMPLES = 10"

text \<open>The loop of \<open>pruneOld\<close>: shift the front entry while it is older than the cutoff.\<close>

fun shiftOld :: "int \<Rightarrow> Metric list \<Rightarrow> Metric list" where
  "shiftOld cutoff [] = []"
| "shiftOld cutoff (m # ms) = (if m_timestamp m < cutoff then shiftOld cutoff ms else m # ms)"

definition pruneOld :: "int \<Rightarrow> Metric list \<Rightarrow> Metric list" where
  "pruneOld now metricsWindow = (let cutoff = now - WINDOW_MS in shiftOld cutoff metricsWindow)"

text \<open>
  The arithmetic of JavaScript numbers is a parameter of the detector: the operations
  that \<open>mean\<close>, \<open>std\<close> and \<open>analyze\<close> apply to latencies (\<open>+\<close>, \<open>-\<close>, \<open>*\<close>, \<open>/\<close>,
  \<open>Math.pow\<close> with a natural exponent and \<open>Math.sqrt\<close>), each giving the number the
  runtime returns. Comparisons of numbers are exact.
\<close>

record float_arith =
  fadd :: "real \<Rightarrow> real \<Rightarrow> real"
  fsub :: "real \<Rightarrow> real \<Rightarrow> real"
  fmul :: "real \<Rightarrow> real \<Rightarrow> real"
  fdiv :: "real \<Rightarrow> real \<Rightarrow> real"
  fpow :: "real \<Rightarrow> nat \<Rightarrow> real"
  fsqrt :: "real \<Rightarrow> real"

text \<open>
  IEEE 754 binary64 with rounding to nearest, ties to even: a real number is rounded to
  a multiple of the quantum of its binade, 53 bits wide, the binades below \<open>2 ^ -1022\<close>
  sharing the quantum \<open>2 ^ -1074\<close>. Overflow to infinity is not modelled. \<open>Math.pow\<close>
  and \<open>Math.sqrt\<close> return the rounded exact result.
\<close>

definition round_even :: "real \<Rightarrow> int" where
  "round_even y =
     (let f = \<lfloor>y\<rfloor>; r = y - of_int f
      in if r < 1 / 2 then f else if 1 / 2 < r then f + 1 else if even f then f else f + 1)"

definition rnd64 :: "real \<Rightarrow> real" where
  "rnd64 x =
     (if x = 0 then 0
      else (let e = max \<lfloor>log 2 \<bar>x\<bar>\<rfloor> (- 1022);
                q = 2 powr of_int (e - 52)
            in of_int (round_even (x / q)) * q))"

definition binary64 :: float_arith where
  "binary64 =
     \<lparr>fadd = (\<lambda>a b. rnd64 (a + b)), fsub = (\<lambda>a b. rnd64 (a - b)),
      fmul = (\<lambda>a b. rnd64 (a * b)), fdiv = (\<lambda>a b. rnd64 (a / b)),
      fpow = (\<lambda>a n. rnd64 (a ^ n)), fsqrt = (\<lambda>a. rnd64 (sqrt a))\<rparr>"

definition mean :: "float_arith \<Rightarrow> real list \<Rightarrow> real" where
  "mean fp values = fdiv fp (foldl (\<lambda>a b. fadd fp a b) 0 values) (real (length values))"

definition std :: "float_arith \<Rightarrow> real list \<Rightarrow> real \<Rightarrow> real" where
  "std fp values avg =
     (let variance =
            fdiv fp (foldl (\<lambda>sum v. fadd fp sum (fpow fp (fsub fp v avg) 2)) 0 values)
              (real (length values))
      in fsqrt fp variance)"

datatype anomaly_type = HIGH_ERROR_RATE | RESPONSE_TIME_SPIKE

text \<open>
  The object that \<open>analyze\<close> returns, without its \<open>message\<close> (a rendering of the same
  numbers as text); \<open>baseline\<close> is present in the spike signal only.
\<close>

record Anomaly =
  a_type :: anomaly_type
  a_severity :: string
  a_value :: real
  baseline :: "real option"

text \<open>The latencies of the window: the \<open>responseTime\<close> fields that are numbers.\<close>

definition responseTimesOf :: "Metric list \<Rightarrow> real list" where
  "responseTimesOf w = concat (map (\<lambda>m. case m_responseTime m of None \<Rightarrow> [] | Some v \<Rightarrow> [v]) w)"

text \<open>A number is truthy when it is not 0; an absent field is \<open>undefined\<close>, which is falsy.\<close>

definition truthy :: "real option \<Rightarrow> bool" where
  "truthy v \<longleftrightarrow> (case v of None \<Rightarrow> False | Some x \<Rightarrow> x \<noteq> 0)"

text \<open>
  The 5xx fraction of the window. The source compares the rounded quotient with the
  number \<open>0.3\<close>; rounding is monotone and that number is the rounded quotient of 3 and
  10, so for every window of fewer than \<open>10 ^ 15\<close> samples the comparison is the exact one.
\<close>

definition errorRateOf :: "Metric list \<Rightarrow> real" where
  "errorRateOf w = real (length (filter (\<lambda>m. statusCode m \<ge> 500) w)) / real (length w)"

text \<open>
  \<open>analyze\<close> takes the arithmetic, the reading of the clock that \<open>pruneOld\<close> makes and
  the window before the call; it returns the signal (\<open>None\<close> is \<open>null\<close>) and the window
  after the call.
\<close>

definition analyze ::
  "float_arith \<Rightarrow> int \<Rightarrow> Metric \<Rightarrow> Metric list \<Rightarrow> Anomaly option \<times> Metric list" where
  "analyze fp now metric metricsWindow =
     (let w = pruneOld now (metricsWindow @ [metric])
      in if length w < MIN_SAMPLES then (None, w)
         else
           (let errorRate = errorRateOf w
            in if errorRate > 0.3
               then (Some \<lparr>a_type = HIGH_ERROR_RATE, a_severity = ''critical'',
                           a_value = errorRate, baseline = None\<rparr>, w)
               else
                 (let responseTimes = responseTimesOf w
                  in if length responseTimes \<ge> MIN_SAMPLES \<and> truthy (m_responseTime metric)
                     then
                       (let avg = mean fp responseTimes;
                            deviation = std fp responseTimes avg
                        in if the (m_responseTime metric) > fadd fp avg (fmul fp 3 deviation)
                           then (Some \<lparr>a_type = RESPONSE_TIME_SPIKE, a_severity = ''warning'',
                                       a_value = the (m_responseTime metric),
                                       baseline = Some avg\<rparr>, w)
                           else (None, w))
                     else (None, w))))"

section \<open>Log storage (class MemStorage, method \<open>addHttpLog\<close>)\<close>

text \<open>
  The schema module is not part of the sources at hand; the two fields of an
  \<open>InsertHttpLog\<close> are those that \<open>storage.ts\<close> itself writes and reads.
\<close>

record InsertHttpLog =
  l_statusCode :: int
  l_message :: string

record HttpLog = InsertHttpLog +
  l_id :: nat
  l_timestamp :: int

text \<open>The payload of \<open>broadcastUpdate\<close>: the event name, the anomaly, the log's timestamp.\<close>

record AiAlert =
  b_event :: string
  b_anomaly :: Anomaly
  b_timestamp :: int

text \<open>
  The storage's log table and counter, the detector's module-level window, the payloads
  broadcast so far, and the logs handed to \<open>onNewLog\<close> (when that callback is set).
\<close>

record storage =
  httpLogs :: "(nat \<times> HttpLog) list"
  currentLogId :: nat
  metricsWindow :: "Metric list"
  broadcasts :: "AiAlert list"
  hasOnNewLog :: bool
  delivered :: "HttpLog list"

text \<open>
  Two clock readings: \<open>stamp\<close> is the \<open>new Date()\<close> of the log, \<open>now\<close> the
  \<open>Date.now()\<close> inside \<open>pruneOld\<close>. The arithmetic is the detector's.
\<close>

definition addHttpLog ::
  "float_arith \<Rightarrow> int \<Rightarrow> int \<Rightarrow> InsertHttpLog \<Rightarrow> storage \<Rightarrow> HttpLog \<times> storage" where
  "addHttpLog fp stamp now newLog st =
     (let ident = currentLogId st;
          httpLog = \<lparr>l_statusCode = l_statusCode newLog, l_message = l_message newLog,
                     l_id = ident, l_timestamp = stamp\<rparr>;
          (anomaly, w) = analyze fp now
                           \<lparr>statusCode = l_statusCode httpLog, m_responseTime = Some 0,
                            m_timestamp = l_timestamp httpLog\<rparr>
                           (metricsWindow st);
          st1 = st\<lparr>currentLogId := ident + 1,
                   httpLogs := AList.update ident httpLog (httpLogs st),
                   metricsWindow := w\<rparr>;
          st2 = (case anomaly of
                   None \<Rightarrow> st1
                 | Some a \<Rightarrow>
                     st1\<lparr>broadcasts := broadcasts st1 @
                           [\<lparr>b_event = ''AI_ALERT'', b_anomaly = a, b_timestamp = l_timestamp httpLog\<rparr>]\<rparr>);
          st3 = (if hasOnNewLog st2 then st2\<lparr>delivered := delivered st2 @ [httpLog]\<rparr> else st2)
      in (httpLog, st3))"

section \<open>Vocabulary of the properties\<close>

text \<open>
  The cooldown of a target is active when the cache holds a timestamp for it that is less
  than five minutes before the clock reading the evaluation takes.
\<close>

definition cooldownActive :: "(nat \<Rightarrow> int) \<Rightarrow> agent \<Rightarrow> string \<Rightarrow> bool" where
  "cooldownActive clk s u \<longleftrightarrow>
     (case map_of (insightCache s) u of
        None \<Rightarrow> False
      | Some lastInsight \<Rightarrow> clk (reads s) - lastInsight < COOLDOWN_MS)"

text \<open>The contexts of the rules whose conditions hold on a sample, in the order of evaluation.\<close>

definition firedRules :: "EndpointCheckResult list \<Rightarrow> string list" where
  "firedRules rc =
     (if errorRateHigh rc then [''High error rate detected''] else []) @
     (if responseSlow rc then [''Slow response time detected''] else []) @
     (if statusUnstable rc then [''Unstable status codes detected''] else [])"

text \<open>What a step added to the requests sent to the service and to the events emitted.\<close>

definition newRequests :: "agent \<Rightarrow> agent \<Rightarrow> (string \<times> string) list" where
  "newRequests s s' = drop (length (requests s)) (requests s')"



fun insightsOf :: "event list \<Rightarrow> AnalyticsInsight list" where
  "insightsOf [] = []"
| "insightsOf (InsightEvent i # es) = i # insightsOf es"
| "insightsOf (CheckCompleted c # es) = insightsOf es"


text \<open>
  The mean and the population standard deviation of a list of numbers, as real numbers
  and without rounding; and the arithmetic that does not round.
\<close>

definition population_mean :: "real list \<Rightarrow> real" where
  "population_mean vs = sum_list vs / real (length vs)"

definition population_std :: "real list \<Rightarrow> real" where
  "population_std vs =
     sqrt (sum_list (map (\<lambda>v. (v - population_mean vs)\<^sup>2) vs) / real (length vs))"

definition exact_arith :: float_arith where
  "exact_arith =
     \<lparr>fadd = (\<lambda>a b. a + b), fsub = (\<lambda>a b. a - b), fmul = (\<lambda>a b. a * b),
      fdiv = (\<lambda>a b. a / b), fpow = (\<lambda>a n. a ^ n), fsqrt = sqrt\<rparr>"

subsection \<open>Concrete inputs\<close>

definition example_config :: EndpointMonitorConfig where
  "example_config =
     \<lparr>url = ''http://a.test/health'', interval = 1000, expectedStatus = None, alertThreshold = None\<rparr>"

text \<open>A failed check that took six seconds, and a successful one that took 20 ms.\<close>

definition failed_check :: "int \<Rightarrow> EndpointCheckResult" where
  "failed_check st =
     \<lparr>c_url = ''http://a.test/health'', status = st, responseTime = 6000, timestamp = 1000,
      success = False, headers = None, error = None\<rparr>"

definition ok_check :: EndpointCheckResult where
  "ok_check =
     \<lparr>c_url = ''http://a.test/health'', status = 200, responseTime = 20, timestamp = 1000,
      success = True, headers = None, error = None\<rparr>"

text \<open>Four failed checks with four distinct status codes: all three rules hold on them.\<close>

definition example_history :: "EndpointCheckResult list" where
  "example_history = [failed_check 500, failed_check 502, failed_check 503, failed_check 504]"

text \<open>Ten checks of which the last \<open>k\<close> failed.\<close>

definition history_with_failures :: "nat \<Rightarrow> EndpointCheckResult list" where
  "history_with_failures k = replicate (10 - k) ok_check @ replicate k (failed_check 500)"

text \<open>A service that always answers, and a clock that advances one second per reading.\<close>

definition example_ai :: ai_service where
  "example_ai u dat context =
     Some \<lparr>r_analysis = context, r_rootCauses = [], r_recommendations = [], r_severity = ''high''\<rparr>"

definition example_clock :: "nat \<Rightarrow> int" where
  "example_clock n = 1000000 + 1000 * int n"

text \<open>The check that a probe timing out yields at the first three readings of that clock.\<close>

definition timeout_check :: EndpointCheckResult where
  "timeout_check =
     \<lparr>c_url = ''http://a.test/health'', status = 0, responseTime = 1000, timestamp = 1002000,
      success = False, headers = None, error = Some ''timeout''\<rparr>"

text \<open>
  The agent after \<open>startMonitoring\<close> of one target; the same after one failed probe of
  that target; and a running agent whose target has a full history.
\<close>

definition example_running :: agent where
  "example_running = startMonitoring [example_config] new_agent"

definition example_monitored :: agent where
  "example_monitored = tick example_ai example_clock example_config (Failure ''timeout'') example_running"

definition example_full :: agent where
  "example_full =
     example_running\<lparr>endpointHistory := [(''http://a.test/health'', replicate 100 ok_check)]\<rparr>"

text \<open>Metrics of the detector: a status code, a latency and a timestamp.\<close>

definition example_metric :: "int \<Rightarrow> real \<Rightarrow> int \<Rightarrow> Metric" where
  "example_metric code latency t =
     \<lparr>statusCode = code, m_responseTime = Some latency, m_timestamp = t\<rparr>"

text \<open>
  Nine fresh samples of latency 0, to be followed by a sample of latency 7; and sixteen
  fresh samples of latency -17, to be followed by a sample of latency 0.
\<close>

definition zero_window :: "Metric list" where
  "zero_window =
     [example_metric 200 0 120000, example_metric 200 0 120000, example_metric 200 0 120000,
      example_metric 200 0 120000, example_metric 200 0 120000, example_metric 200 0 120000,
      example_metric 200 0 120000, example_metric 200 0 120000, example_metric 200 0 120000]"

definition negative_window :: "Metric list" where
  "negative_window = replicate 16 (example_metric 200 (- 17) 120000)"

section \<open>Auxiliary facts\<close>

subsection \<open>Lists\<close>

lemma slice_last_length: "length (slice_last n xs) = min n (length xs)"
  by (simp add: slice_last_def)

lemma slice_last_suffix: "\<exists>older. xs = older @ slice_last n xs"
  unfolding slice_last_def by (metis append_take_drop_id)

subsection \<open>What the agent's steps leave unchanged\<close>

lemma generateInsight_frame:
  "endpointHistory (generateInsight ai clk u dat ctx s) = endpointHistory s"
  "isRunning (generateInsight ai clk u dat ctx s) = isRunning s"
  "insightCache (generateInsight ai clk u dat ctx s) = insightCache s"
  "timers (generateInsight ai clk u dat ctx s) = timers s"
  "monitoringIntervals (generateInsight ai clk u dat ctx s) = monitoringIntervals s"
  by (simp_all add: generateInsight_def Let_def split: option.splits)

lemma fireRule_frame:
  "endpointHistory (fireRule ai clk u rc cond ctx s) = endpointHistory s"
  "isRunning (fireRule ai clk u rc cond ctx s) = isRunning s"
  by (simp_all add: fireRule_def generateInsight_frame)

lemma evaluateRules_frame:
  "endpointHistory (evaluateRules ai clk u rc s) = endpointHistory s"
  "isRunning (evaluateRules ai clk u rc s) = isRunning s"
  by (simp_all add: evaluateRules_def fireRule_frame)

lemma analyzeEndpointHealth_frame:
  "endpointHistory (analyzeEndpointHealth ai clk config history s) = endpointHistory s"
  "isRunning (analyzeEndpointHealth ai clk config history s) = isRunning s"
  by (simp_all add: analyzeEndpointHealth_def Let_def evaluateRules_frame split: option.splits)

lemma checkEndpoint_frame:
  "endpointHistory (snd (checkEndpoint clk outcome u s)) = endpointHistory s"
  "isRunning (snd (checkEndpoint clk outcome u s)) = isRunning s"
  by (simp_all add: checkEndpoint_def Let_def split: fetch_outcome.splits)

lemma historyOf_update:
  "historyOf (s\<lparr>endpointHistory := AList.update u h (endpointHistory s)\<rparr>) u' =
     (if u' = u then h else historyOf s u')"
  by (simp add: historyOf_def AList.update_conv')

lemma historyOf_cong: "endpointHistory s = endpointHistory s' \<Longrightarrow> historyOf s u = historyOf s' u"
  by (simp add: historyOf_def)

lemma tick_history:
  "historyOf (tick ai clk config outcome s) u =
     (if isRunning s \<and> u = url config
      then pushHistory (historyOf s u) (fst (checkEndpoint clk outcome (url config) s))
      else historyOf s u)"
proof (cases "isRunning s")
  case False
  then show ?thesis by (simp add: tick_def)
next
  case True
  obtain r s1 where c: "checkEndpoint clk outcome (url config) s = (r, s1)"
    by (cases "checkEndpoint clk outcome (url config) s")
  have e: "endpointHistory s1 = endpointHistory s"
    using checkEndpoint_frame(1) [of clk outcome "url config" s] c by simp
  have h1: "historyOf s1 v = historyOf s v" for v
    using e by (rule historyOf_cong)
  let ?h = "pushHistory (historyOf s (url config)) r"
  let ?s2 = "s1\<lparr>endpointHistory := AList.update (url config) ?h (endpointHistory s1),
                  emitted := emitted s1 @ [CheckCompleted r]\<rparr>"
  have t: "tick ai clk config outcome s = analyzeEndpointHealth ai clk config ?h ?s2"
    using True c by (simp add: tick_def Let_def h1)
  have "historyOf (tick ai clk config outcome s) u = historyOf ?s2 u"
    unfolding t by (rule historyOf_cong) (simp add: analyzeEndpointHealth_frame)
  also have "\<dots> = (if u = url config then ?h else historyOf s1 u)"
    by (simp add: historyOf_def AList.update_conv')
  finally show ?thesis using True c h1 by simp
qed

lemma tick_isRunning: "isRunning (tick ai clk config outcome s) = isRunning s"
proof (cases "isRunning s")
  case False
  then show ?thesis by (simp add: tick_def)
next
  case True
  obtain r s1 where c: "checkEndpoint clk outcome (url config) s = (r, s1)"
    by (cases "checkEndpoint clk outcome (url config) s")
  have "isRunning s1 = isRunning s"
    using checkEndpoint_frame(2) [of clk outcome "url config" s] c by simp
  then show ?thesis
    using True c by (simp add: tick_def Let_def analyzeEndpointHealth_frame)
qed

lemma pushHistory_length: "length h \<le> 100 \<Longrightarrow> length (pushHistory h r) \<le> 100"
  by (simp add: pushHistory_def Let_def)

lemma pushHistory_full: "length h = 100 \<Longrightarrow> pushHistory h r = tl h @ [r]"
  by (cases h) (simp_all add: pushHistory_def Let_def)

lemma pushHistory_room: "length h < 100 \<Longrightarrow> pushHistory h r = h @ [r]"
  by (simp add: pushHistory_def Let_def)

lemma pushHistory_slice: "length h \<le> 100 \<Longrightarrow> pushHistory h r = slice_last 100 (h @ [r])"
proof (cases "length h = 100")
  case True
  then have "h \<noteq> []" by auto
  then have "drop (Suc 0) (h @ [r]) = tl h @ [r]" by (cases h) simp_all
  with True show ?thesis by (simp add: pushHistory_full slice_last_def)
next
  case False
  moreover assume "length h \<le> 100"
  ultimately have "length h < 100" by simp
  then show ?thesis by (simp add: pushHistory_room slice_last_def)
qed

lemma slice_last_absorb: "slice_last n (slice_last n xs @ ys) = slice_last n (xs @ ys)"
proof (cases "length xs \<le> n")
  case True
  then show ?thesis by (simp add: slice_last_def)
next
  case False
  then have "length xs - (length xs - n) = n" by simp
  with False show ?thesis by (simp add: slice_last_def add.commute)
qed

lemma foldl_pushHistory:
  "length h \<le> 100 \<Longrightarrow> foldl pushHistory h rs = slice_last 100 (h @ rs)"
proof (induction rs arbitrary: h)
  case Nil
  then show ?case by (simp add: slice_last_def)
next
  case (Cons r rs)
  have "foldl pushHistory h (r # rs) = foldl pushHistory (pushHistory h r) rs" by simp
  also have "\<dots> = slice_last 100 (pushHistory h r @ rs)"
    using Cons.prems by (intro Cons.IH pushHistory_length)
  also have "\<dots> = slice_last 100 (slice_last 100 (h @ [r]) @ rs)"
    using Cons.prems by (simp add: pushHistory_slice)
  also have "\<dots> = slice_last 100 ((h @ [r]) @ rs)"
    by (rule slice_last_absorb)
  finally show ?case by simp
qed

lemma ticks_bounded:
  "(\<forall>u. length (historyOf s u) \<le> 100) \<Longrightarrow> length (historyOf (ticks ai clk sched s) u) \<le> 100"
proof (induction sched arbitrary: s)
  case Nil
  then show ?case by simp
next
  case (Cons a sched)
  obtain config outcome where a: "a = (config, outcome)" by (cases a)
  have "\<forall>v. length (historyOf (tick ai clk config outcome s) v) \<le> 100"
    using Cons.prems by (simp add: tick_history pushHistory_length)
  from Cons.IH [OF this] show ?case by (simp add: a)
qed

lemma monitorEndpoint_history: "endpointHistory (monitorEndpoint config s) = endpointHistory s"
  by (simp add: monitorEndpoint_def Let_def)

lemma fold_monitorEndpoint_history:
  "endpointHistory (fold monitorEndpoint configs s) = endpointHistory s"
  by (induction configs arbitrary: s) (simp_all add: monitorEndpoint_history)

lemma startMonitoring_history: "historyOf (startMonitoring configs new_agent) v = []"
  by (simp add: historyOf_def startMonitoring_def fold_monitorEndpoint_history new_agent_def)

subsection \<open>Timers\<close>

lemma fold_clearInterval_subset:
  "set (fold (\<lambda>entry ts. clearInterval (snd entry) ts) al ts) \<subseteq> set ts"
proof (induction al arbitrary: ts)
  case Nil
  show ?case by simp
next
  case (Cons a al)
  have "set (fold (\<lambda>entry ts. clearInterval (snd entry) ts) al (clearInterval (snd a) ts))
          \<subseteq> set (clearInterval (snd a) ts)"
    by (rule Cons.IH)
  also have "\<dots> \<subseteq> set ts"
    by (auto simp: clearInterval_def)
  finally show ?case by simp
qed

lemma fold_clearInterval_notin:
  "h \<in> snd ` set al \<Longrightarrow> h \<notin> fst ` set (fold (\<lambda>entry ts. clearInterval (snd entry) ts) al ts)"
proof (induction al arbitrary: ts)
  case Nil
  then show ?case by simp
next
  case (Cons a al)
  show ?case
  proof (cases "h = snd a")
    case True
    have "h \<notin> fst ` set (clearInterval (snd a) ts)"
      using True by (auto simp: clearInterval_def)
    with fold_clearInterval_subset [of al "clearInterval (snd a) ts"] show ?thesis
      by auto
  next
    case False
    with Cons.prems have "h \<in> snd ` set al" by auto
    from Cons.IH [OF this] show ?thesis by simp
  qed
qed

subsection \<open>Effects of the rules\<close>

lemma generateInsight_effect:
  "requests (generateInsight ai clk u dat ctx s) = requests s @ [(u, ctx)]"
  "emitted (generateInsight ai clk u dat ctx s) =
     emitted s @ (case ai u dat ctx of None \<Rightarrow> []
                  | Some r \<Rightarrow> [InsightEvent
                      \<lparr>i_timestamp = clk (reads s), i_type = alert,
                       severity = r_severity r, message = r_analysis r,
                       data = \<lparr>d_url = u, rootCauses = r_rootCauses r,
                               recommendations = r_recommendations r, checks = dat\<rparr>\<rparr>])"
  "reads (generateInsight ai clk u dat ctx s) = reads s + (if ai u dat ctx = None then 0 else 1)"
  "insightCache (generateInsight ai clk u dat ctx s) = insightCache s"
  by (simp_all add: generateInsight_def Let_def split: option.splits)

lemma fireRule_requests:
  "requests (fireRule ai clk u rc cond ctx s) = requests s @ (if cond then [(u, ctx)] else [])"
  by (simp add: fireRule_def generateInsight_effect)





lemma evaluateRules_requests:
  "requests (evaluateRules ai clk u rc s) = requests s @ map (Pair u) (firedRules rc)"
  by (simp add: evaluateRules_def fireRule_requests firedRules_def)





subsection \<open>The detector\<close>

lemma shiftOld_dropWhile: "shiftOld cutoff w = dropWhile (\<lambda>m. m_timestamp m < cutoff) w"
  by (induction w) simp_all

lemma analyze_window: "snd (analyze fp now metric w) = pruneOld now (w @ [metric])"
  by (simp add: analyze_def Let_def)

lemma analyze_warmup:
  "length (snd (analyze fp now metric w)) < 10 \<Longrightarrow> fst (analyze fp now metric w) = None"
  unfolding analyze_window by (simp add: analyze_def Let_def MIN_SAMPLES_def)

lemma dropWhile_sorted_filter:
  "sorted (map f xs) \<Longrightarrow> dropWhile (\<lambda>x. f x < (c::int)) xs = filter (\<lambda>x. \<not> f x < c) xs"
proof (induction xs)
  case Nil
  then show ?case by simp
next
  case (Cons x xs)
  show ?case
  proof (cases "f x < c")
    case True
    with Cons show ?thesis by simp
  next
    case False
    with Cons.prems have "\<forall>y \<in> set xs. \<not> f y < c" by auto
    then have "filter (\<lambda>x. \<not> f x < c) xs = xs" by simp
    with False show ?thesis by simp
  qed
qed

lemma foldl_plus: "foldl (\<lambda>a b. a + f b) (z::real) xs = z + sum_list (map f xs)"
  by (induction xs arbitrary: z) simp_all

lemma mean_exact: "mean exact_arith vs = population_mean vs"
  using foldl_plus [of "\<lambda>v. v" 0 vs] by (simp add: mean_def exact_arith_def population_mean_def)

lemma std_exact: "std exact_arith vs (population_mean vs) = population_std vs"
  using foldl_plus [of "\<lambda>v. (v - population_mean vs)\<^sup>2" 0 vs]
  by (simp add: std_def exact_arith_def population_std_def)

lemma analyze_cases:
  "analyze fp now metric w =
     (let w' = pruneOld now (w @ [metric]); rts = responseTimesOf w'
      in if length w' < 10 then (None, w')
         else if errorRateOf w' > 0.3
         then (Some \<lparr>a_type = HIGH_ERROR_RATE, a_severity = ''critical'',
                     a_value = errorRateOf w', baseline = None\<rparr>, w')
         else if 10 \<le> length rts \<and> truthy (m_responseTime metric)
                 \<and> the (m_responseTime metric)
                     > fadd fp (mean fp rts) (fmul fp 3 (std fp rts (mean fp rts)))
         then (Some \<lparr>a_type = RESPONSE_TIME_SPIKE, a_severity = ''warning'',
                     a_value = the (m_responseTime metric), baseline = Some (mean fp rts)\<rparr>, w')
         else (None, w'))"
  by (simp add: analyze_def Let_def MIN_SAMPLES_def)

subsection \<open>Rounding to binary64\<close>

lemma round_even_near: "\<bar>y - of_int n\<bar> < 1 / 2 \<Longrightarrow> round_even y = n"
proof -
  assume a: "\<bar>y - of_int n\<bar> < 1 / 2"
  show ?thesis
  proof (cases "of_int n \<le> y")
    case True
    with a have "\<lfloor>y\<rfloor> = n" by (intro floor_unique) auto
    with a True show ?thesis by (simp add: round_even_def Let_def)
  next
    case False
    with a have f: "\<lfloor>y\<rfloor> = n - 1" by (intro floor_unique) auto
    from a False have "1 / 2 < y - of_int (n - 1)" by simp
    with f show ?thesis by (simp add: round_even_def Let_def)
  qed
qed


lemma floor_log2:
  fixes x :: real
  assumes "2 ^ 52 \<le> x * 2 ^ j" "x * 2 ^ j < 2 ^ 53"
  shows "\<lfloor>log 2 x\<rfloor> = 52 - int j"
proof -
  have pj: "(0::real) < 2 ^ j" by simp
  have "(0::real) < 2 ^ 52" by simp
  with assms(1) have "0 < x * 2 ^ j" by linarith
  with pj have pos: "0 < x" by (simp add: zero_less_mult_iff)
  have l: "log 2 (x * 2 ^ j) = log 2 x + real j"
    using pos by (simp add: log_mult log_nat_power)
  have "(2::real) powr 52 \<le> x * 2 ^ j"
    using assms(1) by simp
  then have a: "52 \<le> log 2 (x * 2 ^ j)"
    using \<open>0 < x * 2 ^ j\<close> by (subst le_log_iff) simp_all
  have "x * 2 ^ j < (2::real) powr 53"
    using assms(2) by simp
  then have b: "log 2 (x * 2 ^ j) < 53"
    using \<open>0 < x * 2 ^ j\<close> by (subst log_less_iff) simp_all
  from a b l have "real_of_int (52 - int j) \<le> log 2 x" "log 2 x < real_of_int (52 - int j) + 1"
    by simp_all
  then show ?thesis by (rule floor_unique)
qed

lemma rnd64_eval:
  assumes "2 ^ 52 \<le> \<bar>x\<bar> * 2 ^ j" "\<bar>x\<bar> * 2 ^ j < 2 ^ 53" "j \<le> 1074"
    and "\<bar>x * 2 ^ j - of_int n\<bar> < 1 / 2"
  shows "rnd64 x = of_int n / 2 ^ j"
proof -
  have nz: "x \<noteq> 0" using assms(1) by auto
  have e: "\<lfloor>log 2 \<bar>x\<bar>\<rfloor> = 52 - int j"
    using assms(1,2) by (rule floor_log2)
  have m: "max (52 - int j) (- 1022) = 52 - int j"
    using assms(3) by simp
  have q: "2 powr of_int (52 - int j - 52) = 1 / (2::real) ^ j"
    by (simp add: powr_minus powr_realpow divide_inverse)
  have "rnd64 x = of_int (round_even (x / (1 / 2 ^ j))) * (1 / 2 ^ j)"
    using nz by (simp only: rnd64_def e m q Let_def if_False)
  also have "round_even (x / (1 / 2 ^ j)) = n"
    using assms(4) by (intro round_even_near) simp
  finally show ?thesis by simp
qed

lemma rnd64_zero: "rnd64 0 = 0"
  by (simp add: rnd64_def)


lemma rnd64_sqrt_eval:
  assumes "0 \<le> v" "2 ^ 52 < (of_int n :: real)" "(of_int n :: real) < 2 ^ 53 - 1" "j \<le> 1074"
    and "(of_int n - 1 / 2)\<^sup>2 < v * 4 ^ j" "v * 4 ^ j < (of_int n + 1 / 2)\<^sup>2"
  shows "rnd64 (sqrt v) = of_int n / 2 ^ j"
proof -
  have "(4::real) ^ j = (2 ^ j)\<^sup>2"
    by (simp add: power2_eq_square power_mult_distrib [symmetric])
  then have s: "sqrt v * 2 ^ j = sqrt (v * 4 ^ j)"
    by (simp add: real_sqrt_mult)
  have "(1::real) \<le> 2 ^ 52" by simp
  with assms(2) have npos: "0 < (of_int n :: real) - 1 / 2" by linarith
  have lo: "of_int n - 1 / 2 < sqrt (v * 4 ^ j)"
    using assms(5) by (rule real_less_rsqrt)
  have hi: "sqrt (v * 4 ^ j) < of_int n + 1 / 2"
    using assms(6) npos by (intro real_less_lsqrt) simp_all
  have ab: "\<bar>sqrt v\<bar> = sqrt v" using assms(1) by simp
  have n1: "(2::real) ^ 52 + 1 \<le> of_int n"
  proof -
    have "(2::real) ^ 52 = of_int (2 ^ 52)" by simp
    with assms(2) have "(2::int) ^ 52 < n" by (simp only: of_int_less_iff)
    then have "(2::int) ^ 52 + 1 \<le> n" by simp
    then have "(of_int ((2::int) ^ 52 + 1) :: real) \<le> of_int n" by (simp only: of_int_le_iff)
    then show ?thesis by simp
  qed
  show ?thesis
  proof (rule rnd64_eval)
    show "2 ^ 52 \<le> \<bar>sqrt v\<bar> * 2 ^ j"
      unfolding ab s using lo n1 by linarith
    show "\<bar>sqrt v\<bar> * 2 ^ j < 2 ^ 53"
      unfolding ab s using hi assms(3) by linarith
    show "j \<le> 1074" by (rule assms(4))
    show "\<bar>sqrt v * 2 ^ j - of_int n\<bar> < 1 / 2"
      unfolding s using lo hi by linarith
  qed
qed

text \<open>
  The operations that \<open>mean\<close>, \<open>std\<close> and \<open>analyze\<close> perform on nine latencies 0 and
  a latency 7, each with its rounded result.
\<close>

lemma b64_1: "fadd binary64 0 0 = 0"
  by (simp add: binary64_def rnd64_zero)

lemma b64_2: "fadd binary64 0 7 = 7"
  using rnd64_eval [of "0 + 7" 50 "7881299347898368"]
  by (simp add: binary64_def power2_eq_square)

lemma b64_3: "fdiv binary64 7 10 = 3152519739159347 / 4503599627370496"
  using rnd64_eval [of "7 / 10" 53 "6305039478318694"]
  by (simp add: binary64_def power2_eq_square)

lemma b64_4: "fsub binary64 0 (3152519739159347 / 4503599627370496) = - (3152519739159347 / 4503599627370496)"
  using rnd64_eval [of "0 - (3152519739159347 / 4503599627370496)" 53 "- 6305039478318694"]
  by (simp add: binary64_def power2_eq_square)

lemma b64_5: "fpow binary64 (- (3152519739159347 / 4503599627370496)) 2 = 8827055269646171 / 18014398509481984"
  using rnd64_eval [of "(- (3152519739159347 / 4503599627370496)) ^ 2" 54 "8827055269646171"]
  by (simp add: binary64_def power2_eq_square)

lemma b64_6: "fadd binary64 0 (8827055269646171 / 18014398509481984) = 8827055269646171 / 18014398509481984"
  using rnd64_eval [of "0 + (8827055269646171 / 18014398509481984)" 54 "8827055269646171"]
  by (simp add: binary64_def power2_eq_square)

lemma b64_7: "fadd binary64 (8827055269646171 / 18014398509481984) (8827055269646171 / 18014398509481984) = 8827055269646171 / 9007199254740992"
  using rnd64_eval [of "(8827055269646171 / 18014398509481984) + (8827055269646171 / 18014398509481984)" 53 "8827055269646171"]
  by (simp add: binary64_def power2_eq_square)

lemma b64_8: "fadd binary64 (8827055269646171 / 9007199254740992) (8827055269646171 / 18014398509481984) = 1655072863058657 / 1125899906842624"
  using rnd64_eval [of "(8827055269646171 / 9007199254740992) + (8827055269646171 / 18014398509481984)" 52 "6620291452234628"]
  by (simp add: binary64_def power2_eq_square)

lemma b64_9: "fadd binary64 (1655072863058657 / 1125899906842624) (8827055269646171 / 18014398509481984) = 8827055269646171 / 4503599627370496"
  using rnd64_eval [of "(1655072863058657 / 1125899906842624) + (8827055269646171 / 18014398509481984)" 52 "8827055269646171"]
  by (simp add: binary64_def power2_eq_square)

lemma b64_10: "fadd binary64 (8827055269646171 / 4503599627370496) (8827055269646171 / 18014398509481984) = 5516909543528857 / 2251799813685248"
  using rnd64_eval [of "(8827055269646171 / 4503599627370496) + (8827055269646171 / 18014398509481984)" 51 "5516909543528857"]
  by (simp add: binary64_def power2_eq_square)

lemma b64_11: "fadd binary64 (5516909543528857 / 2251799813685248) (8827055269646171 / 18014398509481984) = 1655072863058657 / 562949953421312"
  using rnd64_eval [of "(5516909543528857 / 2251799813685248) + (8827055269646171 / 18014398509481984)" 51 "6620291452234628"]
  by (simp add: binary64_def power2_eq_square)

lemma b64_12: "fadd binary64 (1655072863058657 / 562949953421312) (8827055269646171 / 18014398509481984) = 7723673360940399 / 2251799813685248"
  using rnd64_eval [of "(1655072863058657 / 562949953421312) + (8827055269646171 / 18014398509481984)" 51 "7723673360940399"]
  by (simp add: binary64_def power2_eq_square)

lemma b64_13: "fadd binary64 (7723673360940399 / 2251799813685248) (8827055269646171 / 18014398509481984) = 4413527634823085 / 1125899906842624"
  using rnd64_eval [of "(7723673360940399 / 2251799813685248) + (8827055269646171 / 18014398509481984)" 51 "8827055269646170"]
  by (simp add: binary64_def power2_eq_square)

lemma b64_14: "fadd binary64 (4413527634823085 / 1125899906842624) (8827055269646171 / 18014398509481984) = 4965218589175971 / 1125899906842624"
  using rnd64_eval [of "(4413527634823085 / 1125899906842624) + (8827055269646171 / 18014398509481984)" 50 "4965218589175971"]
  by (simp add: binary64_def power2_eq_square)

lemma b64_15: "fsub binary64 7 (3152519739159347 / 4503599627370496) = 7093169413108531 / 1125899906842624"
  using rnd64_eval [of "7 - (3152519739159347 / 4503599627370496)" 50 "7093169413108531"]
  by (simp add: binary64_def power2_eq_square)

lemma b64_16: "fpow binary64 (7093169413108531 / 1125899906842624) 2 = 698233864102871 / 17592186044416"
  using rnd64_eval [of "(7093169413108531 / 1125899906842624) ^ 2" 47 "5585870912822968"]
  by (simp add: binary64_def power2_eq_square)

lemma b64_17: "fadd binary64 (4965218589175971 / 1125899906842624) (698233864102871 / 17592186044416) = 1551630809117491 / 35184372088832"
  using rnd64_eval [of "(4965218589175971 / 1125899906842624) + (698233864102871 / 17592186044416)" 47 "6206523236469964"]
  by (simp add: binary64_def power2_eq_square)

lemma b64_18: "fdiv binary64 (1551630809117491 / 35184372088832) 10 = 4965218589175971 / 1125899906842624"
  using rnd64_eval [of "(1551630809117491 / 35184372088832) / 10" 50 "4965218589175971"]
  by (simp add: binary64_def power2_eq_square)

lemma b64_19: "fsqrt binary64 (4965218589175971 / 1125899906842624) = 1182194902184755 / 562949953421312"
  using rnd64_sqrt_eval [of "4965218589175971 / 1125899906842624" 4728779608739020 51]
  by (simp add: binary64_def power2_eq_square)

lemma b64_20: "fmul binary64 3 (1182194902184755 / 562949953421312) = 3546584706554265 / 562949953421312"
  using rnd64_eval [of "3 * (1182194902184755 / 562949953421312)" 50 "7093169413108530"]
  by (simp add: binary64_def power2_eq_square)

lemma b64_21: "fadd binary64 (3152519739159347 / 4503599627370496) (3546584706554265 / 562949953421312) = 7881299347898367 / 1125899906842624"
  using rnd64_eval [of "(3152519739159347 / 4503599627370496) + (3546584706554265 / 562949953421312)" 50 "7881299347898367"]
  by (simp add: binary64_def power2_eq_square)


lemmas b64 = b64_1 b64_2 b64_3 b64_4 b64_5 b64_6 b64_7 b64_8 b64_9 b64_10 b64_11 b64_12 b64_13 b64_14 b64_15 b64_16 b64_17 b64_18 b64_19 b64_20 b64_21

lemma mean9: "mean binary64 [0, 0, 0, 0, 0, 0, 0, 0, 0, 7] = 3152519739159347 / 4503599627370496"
  by (simp add: mean_def b64)

lemma std9:
  "std binary64 [0, 0, 0, 0, 0, 0, 0, 0, 0, 7] (3152519739159347 / 4503599627370496)
     = 1182194902184755 / 562949953421312"
  by (simp add: std_def Let_def b64)

lemma thr9:
  "fadd binary64 (3152519739159347 / 4503599627370496) (fmul binary64 3 (1182194902184755 / 562949953421312))
     = 7881299347898367 / 1125899906842624"
  by (simp add: b64)

subsection \<open>One evaluation pass\<close>


lemma analyze_inactive:
  "\<not> cooldownActive clk s (url config) \<Longrightarrow>
     analyzeEndpointHealth ai clk config history s =
       evaluateRules ai clk (url config) (slice_last 10 history)
         (s\<lparr>reads := reads s + (if map_of (insightCache s) (url config) = None then 0 else 1)\<rparr>)"
  by (auto simp add: cooldownActive_def analyzeEndpointHealth_def Let_def split: option.splits)

lemma analyze_inactive_requests:
  "\<not> cooldownActive clk s (url config) \<Longrightarrow>
     newRequests s (analyzeEndpointHealth ai clk config history s) =
       map (Pair (url config)) (firedRules (slice_last 10 history))"
  by (simp add: analyze_inactive newRequests_def evaluateRules_requests)

lemma errorRateHigh_fraction:
  "errorRateHigh rc \<longleftrightarrow> real (length (filter (\<lambda>c. \<not> success c) rc)) / real (length rc) > 0.3"
  by (cases rc) (simp_all add: errorRateHigh_def)


subsection \<open>The concrete inputs, evaluated\<close>

lemma example_running_eval:
  "example_running =
     \<lparr>isRunning = True, monitoringIntervals = [(''http://a.test/health'', 0)],
      endpointHistory = [], insightCache = [],
      timers = [(0, example_config)], nextHandle = 1, emitted = [], requests = [], reads = 0\<rparr>"
  by (simp add: example_running_def startMonitoring_def monitorEndpoint_def new_agent_def
      example_config_def Let_def)

lemma rules_single_failure:
  "errorRateHigh [timeout_check]" "\<not> responseSlow [timeout_check]" "\<not> statusUnstable [timeout_check]"
  by (simp_all add: errorRateHigh_def responseSlow_def statusUnstable_def array_from_set_def
      timeout_check_def)

lemma example_monitored_eval:
  "example_monitored =
     \<lparr>isRunning = True, monitoringIntervals = [(''http://a.test/health'', 0)],
      endpointHistory = [(''http://a.test/health'', [timeout_check])],
      insightCache = [(''http://a.test/health'', 1003000)],
      timers = [(0, example_config)], nextHandle = 1,
      emitted = [CheckCompleted timeout_check,
                 InsightEvent
                   \<lparr>i_timestamp = 1004000, i_type = alert, severity = ''high'',
                    message = ''High error rate detected'',
                    data = \<lparr>d_url = ''http://a.test/health'', rootCauses = [],
                            recommendations = [], checks = [timeout_check]\<rparr>\<rparr>],
      requests = [(''http://a.test/health'', ''High error rate detected'')], reads = 5\<rparr>"
proof -
  let ?u = "''http://a.test/health''"
  let ?s2 = "\<lparr>isRunning = True, monitoringIntervals = [(?u, 0)],
      endpointHistory = [(?u, [timeout_check])], insightCache = [],
      timers = [(0, example_config)], nextHandle = 1,
      emitted = [CheckCompleted timeout_check], requests = [], reads = 3\<rparr>"
  have u: "url example_config = ?u"
    by (simp add: example_config_def)
  have c: "checkEndpoint example_clock (Failure ''timeout'') (url example_config) example_running
             = (timeout_check, example_running\<lparr>reads := 3\<rparr>)"
    by (simp add: u checkEndpoint_def example_running_eval example_clock_def timeout_check_def Let_def)
  have p: "pushHistory [] timeout_check = [timeout_check]"
    by (simp add: pushHistory_def)
  have t: "example_monitored =
             analyzeEndpointHealth example_ai example_clock example_config [timeout_check] ?s2"
    unfolding example_monitored_def tick_def c
    by (simp add: u example_running_eval historyOf_def p Let_def)
  have s: "slice_last 10 [timeout_check] = [timeout_check]"
    by (simp add: slice_last_def)
  show ?thesis
    unfolding t analyzeEndpointHealth_def
    using rules_single_failure
    by (simp add: u s evaluateRules_def fireRule_def generateInsight_def
        example_ai_def example_clock_def Let_def)
qed

lemma example_history_rules:
  "errorRateHigh example_history" "responseSlow example_history" "statusUnstable example_history"
  by (simp_all add: errorRateHigh_def responseSlow_def statusUnstable_def array_from_set_def
      example_history_def failed_check_def)

lemma u_cfg: "url example_config = ''http://a.test/health''"
  by (simp add: example_config_def)

lemma example_full_eval:
  "isRunning example_full"
  "historyOf example_full v = (if v = ''http://a.test/health'' then replicate 100 ok_check else [])"
  by (simp_all add: example_full_def example_running_eval historyOf_def)

lemma example_running_history: "historyOf example_running v = []"
  by (simp add: example_running_eval historyOf_def)

lemma history_with_failures_eval:
  "k \<le> 10 \<Longrightarrow> length (history_with_failures k) = 10"
  "k \<le> 10 \<Longrightarrow> drop (length (history_with_failures k) - 10) (history_with_failures k) = history_with_failures k"
  "length (filter (\<lambda>c. \<not> success c) (history_with_failures k)) = k"
  by (simp_all add: history_with_failures_def ok_check_def failed_check_def)

lemma zero_window_pruned:
  "snd (analyze fp 130000 (example_metric 200 7 125000) zero_window)
     = zero_window @ [example_metric 200 7 125000]"
  by (simp add: analyze_window pruneOld_def WINDOW_MS_def Let_def zero_window_def example_metric_def)

lemma zero_window_latencies:
  "responseTimesOf (zero_window @ [example_metric 200 7 125000]) = [0, 0, 0, 0, 0, 0, 0, 0, 0, 7]"
  by (simp add: responseTimesOf_def zero_window_def example_metric_def)

lemma zero_window_errors: "errorRateOf (zero_window @ [example_metric 200 7 125000]) = 0"
  by (simp add: errorRateOf_def zero_window_def example_metric_def)

lemma zero_window_exact:
  "population_mean [0, 0, 0, 0, 0, 0, 0, 0, 0, 7] = 7 / 10"
  "population_std [0, 0, 0, 0, 0, 0, 0, 0, 0, 7] = 21 / 10"
proof -
  show m: "population_mean [0, 0, 0, 0, 0, 0, 0, 0, 0, 7] = 7 / 10"
    by (simp add: population_mean_def)
  have "sum_list (map (\<lambda>v. (v - 7 / 10)\<^sup>2) [0, 0, 0, 0, 0, 0, 0, 0, 0, 7::real]) / 10 = (21 / 10)\<^sup>2"
    by (simp add: power2_eq_square)
  then show "population_std [0, 0, 0, 0, 0, 0, 0, 0, 0, 7] = 21 / 10"
    unfolding population_std_def m by (simp only: list.size length_Cons real_sqrt_abs) simp
qed

lemma negative_window_pruned:
  "snd (analyze fp 130000 (example_metric 200 0 125000) negative_window)
     = negative_window @ [example_metric 200 0 125000]"
  by (simp add: analyze_window pruneOld_def shiftOld_dropWhile WINDOW_MS_def Let_def
      negative_window_def example_metric_def)

lemma negative_window_latencies:
  "responseTimesOf (negative_window @ [example_metric 200 0 125000]) = replicate 16 (- 17) @ [0]"
  by (simp add: responseTimesOf_def negative_window_def example_metric_def)

lemma negative_window_exact:
  "population_mean (replicate 16 (- 17) @ [0]) = - 16"
  "population_std (replicate 16 (- 17) @ [0]) = 4"
proof -
  show m: "population_mean (replicate 16 (- 17) @ [0]) = - 16"
    by (simp add: population_mean_def sum_list_replicate)
  have "sum_list (map (\<lambda>v. (v - (- 16))\<^sup>2) (replicate 16 (- 17) @ [0::real])) = 272"
    by (simp add: sum_list_replicate)
  then show "population_std (replicate 16 (- 17) @ [0]) = 4"
    unfolding population_std_def m by simp
qed

section \<open>The properties\<close>

subsection \<open>One pass can emit three Insights\<close>

text \<open>
  Claim C1 says that at most one Insight is emitted for a target within any five minutes,
  however many rules hold in one evaluation pass: the first rule wins and suppresses the
  others. The source's comment says the same (at most one per endpoint per five minutes),
  but the cooldown is tested once, before the rules. On a sample of four failed, slow
  checks with four distinct status codes, and no cooldown timestamp, one pass emits three
  Insights for the target, four seconds apart.
\<close>

theorem one_pass_three_insights:
  "map (\<lambda>i. (d_url (data i), message i, i_timestamp i))
     (insightsOf (emitted (analyzeEndpointHealth example_ai example_clock example_config
                             example_history example_running)))
     = [(''http://a.test/health'', ''High error rate detected'', 1001000),
        (''http://a.test/health'', ''Slow response time detected'', 1003000),
        (''http://a.test/health'', ''Unstable status codes detected'', 1005000)]
   \<and> 1005000 - 1001000 < COOLDOWN_MS"
proof -
  have s: "slice_last 10 example_history = example_history"
    by (simp add: slice_last_def example_history_def)
  have u: "url example_config = ''http://a.test/health''"
    by (simp add: example_config_def)
  show ?thesis
    unfolding analyzeEndpointHealth_def
    using example_history_rules
    by (simp add: s u example_running_eval evaluateRules_def fireRule_def generateInsight_def
        example_ai_def example_clock_def COOLDOWN_MS_def Let_def)
qed

subsection \<open>The cooldown test and the three rules\<close>



subsection \<open>The history of a target is bounded\<close>

text \<open>
  Claim C3: after \<open>startMonitoring\<close> on a new agent and any schedule of timer
  callbacks, the history of every target has at most 100 entries; more generally, when
  every target's history has at most 100 entries, it still has after any schedule. A
  callback on a running agent whose target has 100 entries drops the front entry and
  appends the new result behind the others, in their order; with fewer than 100 entries
  it only appends. Recording any sequence of results from the empty history leaves its
  last 100 results, in their order.
\<close>

theorem history_ring_bounded:
  "length (historyOf (ticks ai clk sched (startMonitoring configs new_agent)) u) \<le> 100
   \<and> ((\<forall>v. length (historyOf s v) \<le> 100) \<longrightarrow>
         length (historyOf (ticks ai clk sched s) u) \<le> 100)
   \<and> (isRunning s \<and> length (historyOf s (url config)) = 100 \<longrightarrow>
         historyOf (tick ai clk config outcome s) (url config)
           = tl (historyOf s (url config)) @ [fst (checkEndpoint clk outcome (url config) s)])
   \<and> (isRunning s \<and> length (historyOf s (url config)) < 100 \<longrightarrow>
         historyOf (tick ai clk config outcome s) (url config)
           = historyOf s (url config) @ [fst (checkEndpoint clk outcome (url config) s)])
   \<and> foldl pushHistory [] rs = drop (length rs - 100) rs"
proof -
  have init: "length (historyOf (ticks ai clk sched (startMonitoring configs new_agent)) u) \<le> 100"
    by (rule ticks_bounded) (simp add: startMonitoring_history)
  have inv: "(\<forall>v. length (historyOf s v) \<le> 100) \<longrightarrow>
         length (historyOf (ticks ai clk sched s) u) \<le> 100"
    using ticks_bounded by blast
  from init inv foldl_pushHistory [of "[]" rs] show ?thesis
    by (simp add: tick_history pushHistory_full pushHistory_room slice_last_def)
qed

theorem history_ring_bounded_witness:
  "(\<forall>v. length (historyOf example_full v) \<le> 100)
   \<and> isRunning example_full
   \<and> length (historyOf example_full (url example_config)) = 100
   \<and> historyOf (tick example_ai example_clock example_config (Failure ''timeout'') example_full)
        (url example_config)
       = replicate 99 ok_check
           @ [fst (checkEndpoint example_clock (Failure ''timeout'') (url example_config) example_full)]
   \<and> length (historyOf (ticks example_ai example_clock
                 [(example_config, Failure ''timeout''), (example_config, Response 200 True [])]
                 example_full) (url example_config)) \<le> 100
   \<and> isRunning example_running
   \<and> length (historyOf example_running (url example_config)) < 100
   \<and> historyOf example_monitored (url example_config) = [timeout_check]"
proof -
  have b: "\<forall>v. length (historyOf example_full v) \<le> 100"
    by (simp add: example_full_eval)
  have b0: "\<forall>v. length (historyOf example_running v) \<le> 100"
    by (simp add: example_running_history)
  have r: "isRunning example_running"
    by (simp add: example_running_eval)
  have m: "historyOf example_monitored (url example_config) = [timeout_check]"
    by (simp add: example_monitored_eval historyOf_def u_cfg)
  from b r m show ?thesis
    using b0
      history_ring_bounded [where ai = example_ai and clk = example_clock and s = example_full
        and sched = "[(example_config, Failure ''timeout''), (example_config, Response 200 True [])]"
        and u = "url example_config" and config = example_config and outcome = "Failure ''timeout''"]
      history_ring_bounded [where ai = example_ai and clk = example_clock and s = example_running
        and sched = "[]" and u = "url example_config" and config = example_config
        and outcome = "Failure ''timeout''"]
    by (simp add: example_full_eval example_running_history u_cfg)
qed

subsection \<open>The error-rate rule\<close>

text \<open>
  Claim C4: when the cooldown is not active, the pass sends the request of the
  error-rate rule exactly when the fraction of failed checks among the last
  \<open>min 10 (length history)\<close> checks is greater than 0.3. With ten sampled checks,
  three failures do not fire the rule and four or more do. (On an empty sample neither
  side holds: the source's quotient is NaN, the fraction below is 0.)
\<close>

theorem high_error_rate_rule:
  "\<not> cooldownActive clk s (url config) \<Longrightarrow>
   (let recent = drop (length history - 10) history;
        failures = length (filter (\<lambda>c. \<not> success c) recent);
        fired = ((url config, ''High error rate detected'')
                   \<in> set (newRequests s (analyzeEndpointHealth ai clk config history s)))
    in length recent = min 10 (length history)
       \<and> (fired \<longleftrightarrow> real failures / real (length recent) > 0.3)
       \<and> (length recent = 10 \<and> failures = 3 \<longrightarrow> \<not> fired)
       \<and> (length recent = 10 \<and> 4 \<le> failures \<longrightarrow> fired))"
proof -
  assume off: "\<not> cooldownActive clk s (url config)"
  let ?recent = "drop (length history - 10) history"
  let ?failures = "length (filter (\<lambda>c. \<not> success c) ?recent)"
  let ?fired = "(url config, ''High error rate detected'')
                   \<in> set (newRequests s (analyzeEndpointHealth ai clk config history s))"
  have f: "?fired \<longleftrightarrow> errorRateHigh ?recent"
    using analyze_inactive_requests [OF off, of ai history]
    by (auto simp add: firedRules_def slice_last_def)
  have r: "errorRateHigh ?recent \<longleftrightarrow> real ?failures / real (length ?recent) > 0.3"
    by (rule errorRateHigh_fraction)
  have a: "length ?recent = min 10 (length history)"
    by simp
  have b: "length ?recent = 10 \<and> ?failures = 3 \<longrightarrow> \<not> ?fired"
    unfolding f r by simp
  have c: "length ?recent = 10 \<and> 4 \<le> ?failures \<longrightarrow> ?fired"
    unfolding f r by (simp add: field_simps)
  from a f r b c show ?thesis
    unfolding Let_def by blast
qed

theorem high_error_rate_rule_witness:
  "\<not> cooldownActive example_clock example_running (url example_config)
   \<and> length (drop (length (history_with_failures 3) - 10) (history_with_failures 3)) = 10
   \<and> length (filter (\<lambda>c. \<not> success c)
        (drop (length (history_with_failures 3) - 10) (history_with_failures 3))) = 3
   \<and> (url example_config, ''High error rate detected'')
        \<notin> set (newRequests example_running
             (analyzeEndpointHealth example_ai example_clock example_config
                (history_with_failures 3) example_running))
   \<and> length (drop (length (history_with_failures 4) - 10) (history_with_failures 4)) = 10
   \<and> 4 \<le> length (filter (\<lambda>c. \<not> success c)
        (drop (length (history_with_failures 4) - 10) (history_with_failures 4)))
   \<and> (url example_config, ''High error rate detected'')
        \<in> set (newRequests example_running
             (analyzeEndpointHealth example_ai example_clock example_config
                (history_with_failures 4) example_running))"
proof -
  have off: "\<not> cooldownActive example_clock example_running (url example_config)"
    by (simp add: cooldownActive_def example_running_eval)
  show ?thesis
    using off
      high_error_rate_rule [OF off, of "history_with_failures 3" example_ai]
      high_error_rate_rule [OF off, of "history_with_failures 4" example_ai]
    by (simp add: Let_def history_with_failures_eval)
qed

subsection \<open>The response-time spike\<close>

text \<open>
  Claim C5, as amended: let the window after the call hold at least ten samples whose 5xx
  fraction is at most 0.3. Then \<open>analyze\<close> returns the response-time spike exactly when
  at least ten samples of the window carry a latency, the current sample carries a
  latency that is not 0, and that latency is greater than the threshold the source
  computes: the mean plus three times the standard deviation of the window's latencies
  as \<open>mean\<close> and \<open>std\<close> return them in the arithmetic of the runtime, every operation
  rounded. A signal returned is the warning carrying the current latency and that mean.
  Without rounding, \<open>mean\<close> and \<open>std\<close> are the mean and the population standard
  deviation.
\<close>

theorem response_time_spike:
  "10 \<le> length (snd (analyze fp now metric w)) \<Longrightarrow>
   \<not> errorRateOf (snd (analyze fp now metric w)) > 0.3 \<Longrightarrow>
   (let rts = responseTimesOf (snd (analyze fp now metric w));
        avg = mean fp rts;
        deviation = std fp rts avg
    in ((\<exists>a. fst (analyze fp now metric w) = Some a \<and> a_type a = RESPONSE_TIME_SPIKE) \<longleftrightarrow>
          10 \<le> length rts
          \<and> (\<exists>v. m_responseTime metric = Some v \<and> v \<noteq> 0
                 \<and> v > fadd fp avg (fmul fp 3 deviation)))
       \<and> (\<forall>a. fst (analyze fp now metric w) = Some a \<longrightarrow>
             (\<exists>v. m_responseTime metric = Some v
                \<and> a = \<lparr>a_type = RESPONSE_TIME_SPIKE, a_severity = ''warning'',
                       a_value = v, baseline = Some avg\<rparr>))
       \<and> mean exact_arith rts = population_mean rts
       \<and> std exact_arith rts (population_mean rts) = population_std rts)"
proof -
  let ?w = "pruneOld now (w @ [metric])"
  let ?rts = "responseTimesOf ?w"
  let ?thr = "fadd fp (mean fp ?rts) (fmul fp 3 (std fp ?rts (mean fp ?rts)))"
  assume len: "10 \<le> length (snd (analyze fp now metric w))"
    and err: "\<not> errorRateOf (snd (analyze fp now metric w)) > 0.3"
  have len': "\<not> length ?w < 10" using len by (simp add: analyze_window)
  have err': "\<not> errorRateOf ?w > 0.3" using err by (simp add: analyze_window)
  have res: "fst (analyze fp now metric w) =
      (if 10 \<le> length ?rts \<and> truthy (m_responseTime metric) \<and> the (m_responseTime metric) > ?thr
       then Some \<lparr>a_type = RESPONSE_TIME_SPIKE, a_severity = ''warning'',
                  a_value = the (m_responseTime metric), baseline = Some (mean fp ?rts)\<rparr>
       else None)"
    using len' err' by (simp add: analyze_cases Let_def)
  have cond: "(truthy (m_responseTime metric) \<and> the (m_responseTime metric) > ?thr)
              \<longleftrightarrow> (\<exists>v. m_responseTime metric = Some v \<and> v \<noteq> 0 \<and> v > ?thr)"
    by (cases "m_responseTime metric") (auto simp add: truthy_def)
  have iff: "(\<exists>a. fst (analyze fp now metric w) = Some a \<and> a_type a = RESPONSE_TIME_SPIKE) \<longleftrightarrow>
          10 \<le> length ?rts \<and> (\<exists>v. m_responseTime metric = Some v \<and> v \<noteq> 0 \<and> v > ?thr)"
    unfolding res using cond by auto
  have carry: "\<forall>a. fst (analyze fp now metric w) = Some a \<longrightarrow>
             (\<exists>v. m_responseTime metric = Some v
                \<and> a = \<lparr>a_type = RESPONSE_TIME_SPIKE, a_severity = ''warning'',
                       a_value = v, baseline = Some (mean fp ?rts)\<rparr>)"
    unfolding res by (cases "m_responseTime metric") (auto simp add: truthy_def)
  from iff carry show ?thesis
    by (simp add: Let_def analyze_window mean_exact std_exact)
qed

theorem response_time_spike_witness:
  "10 \<le> length (snd (analyze binary64 130000 (example_metric 200 7 125000) zero_window))
   \<and> \<not> errorRateOf (snd (analyze binary64 130000 (example_metric 200 7 125000) zero_window)) > 0.3
   \<and> responseTimesOf (snd (analyze binary64 130000 (example_metric 200 7 125000) zero_window))
       = [0, 0, 0, 0, 0, 0, 0, 0, 0, 7]
   \<and> fadd binary64 (mean binary64 [0, 0, 0, 0, 0, 0, 0, 0, 0, 7])
        (fmul binary64 3 (std binary64 [0, 0, 0, 0, 0, 0, 0, 0, 0, 7]
                            (mean binary64 [0, 0, 0, 0, 0, 0, 0, 0, 0, 7])))
       = 7881299347898367 / 1125899906842624
   \<and> fst (analyze binary64 130000 (example_metric 200 7 125000) zero_window)
       = Some \<lparr>a_type = RESPONSE_TIME_SPIKE, a_severity = ''warning'', a_value = 7,
               baseline = Some (3152519739159347 / 4503599627370496)\<rparr>"
proof -
  let ?m = "example_metric 200 7 125000"
  have len: "10 \<le> length (snd (analyze binary64 130000 ?m zero_window))"
    by (simp add: zero_window_pruned) (simp add: zero_window_def)
  have err: "\<not> errorRateOf (snd (analyze binary64 130000 ?m zero_window)) > 0.3"
    by (simp add: zero_window_pruned zero_window_errors)
  have lat: "m_responseTime ?m = Some 7"
    by (simp add: example_metric_def)
  have thr: "fadd binary64 (mean binary64 [0, 0, 0, 0, 0, 0, 0, 0, 0, 7])
        (fmul binary64 3 (std binary64 [0, 0, 0, 0, 0, 0, 0, 0, 0, 7]
                            (mean binary64 [0, 0, 0, 0, 0, 0, 0, 0, 0, 7])))
       = 7881299347898367 / 1125899906842624"
    by (simp only: mean9 std9 thr9)
  have "\<exists>a. fst (analyze binary64 130000 ?m zero_window) = Some a \<and> a_type a = RESPONSE_TIME_SPIKE"
    using response_time_spike [OF len err]
    unfolding Let_def zero_window_pruned zero_window_latencies thr lat
    by simp
  then obtain a where a: "fst (analyze binary64 130000 ?m zero_window) = Some a"
    by blast
  have "a = \<lparr>a_type = RESPONSE_TIME_SPIKE, a_severity = ''warning'', a_value = 7,
             baseline = Some (3152519739159347 / 4503599627370496)\<rparr>"
    using response_time_spike [OF len err] a
    unfolding Let_def zero_window_pruned zero_window_latencies mean9 lat
    by simp
  with a len err thr show ?thesis
    by (simp add: zero_window_pruned zero_window_latencies)
qed

text \<open>
  As the claim is written (the current sample carries a latency that exceeds the mean
  plus three times the population standard deviation) it fails in both directions. With
  nine latencies 0 and a current latency 7 the mean is 0.7 and the population standard
  deviation 2.1, so the latency equals the threshold and does not exceed it; in binary64
  the source computes the threshold 6.999999999999999 and returns the spike. With
  sixteen latencies -17 and a current latency 0 the threshold is -4, which 0 exceeds;
  the source finds 0 falsy and returns no signal.
\<close>

theorem response_time_spike_counterexample:
  "fst (analyze binary64 130000 (example_metric 200 7 125000) zero_window)
     = Some \<lparr>a_type = RESPONSE_TIME_SPIKE, a_severity = ''warning'', a_value = 7,
             baseline = Some (3152519739159347 / 4503599627370496)\<rparr>
   \<and> m_responseTime (example_metric 200 7 125000) = Some 7
   \<and> \<not> 7 > population_mean
               (responseTimesOf (snd (analyze binary64 130000 (example_metric 200 7 125000) zero_window)))
            + 3 * population_std
               (responseTimesOf (snd (analyze binary64 130000 (example_metric 200 7 125000) zero_window)))
   \<and> fst (analyze binary64 130000 (example_metric 200 0 125000) negative_window) = None
   \<and> 10 \<le> length (snd (analyze binary64 130000 (example_metric 200 0 125000) negative_window))
   \<and> \<not> errorRateOf (snd (analyze binary64 130000 (example_metric 200 0 125000) negative_window)) > 0.3
   \<and> 10 \<le> length (responseTimesOf
               (snd (analyze binary64 130000 (example_metric 200 0 125000) negative_window)))
   \<and> m_responseTime (example_metric 200 0 125000) = Some 0
   \<and> 0 > population_mean
             (responseTimesOf (snd (analyze binary64 130000 (example_metric 200 0 125000) negative_window)))
          + 3 * population_std
             (responseTimesOf (snd (analyze binary64 130000 (example_metric 200 0 125000) negative_window)))"
proof -
  let ?m = "example_metric 200 7 125000"
  let ?z = "example_metric 200 0 125000"
  have w: "pruneOld 130000 (zero_window @ [?m]) = zero_window @ [?m]"
    using zero_window_pruned [of binary64] by (simp only: analyze_window)
  have len: "\<not> length (zero_window @ [?m]) < 10"
    by (simp add: zero_window_def)
  have lat: "m_responseTime ?m = Some 7"
    by (simp add: example_metric_def)
  have spike: "fst (analyze binary64 130000 ?m zero_window)
     = Some \<lparr>a_type = RESPONSE_TIME_SPIKE, a_severity = ''warning'', a_value = 7,
             baseline = Some (3152519739159347 / 4503599627370496)\<rparr>"
    using len
    by (simp add: analyze_cases Let_def w zero_window_latencies zero_window_errors
        mean9 std9 thr9 truthy_def lat)
  have exact: "\<not> 7 > population_mean [0, 0, 0, 0, 0, 0, 0, 0, 0, 7]
                      + 3 * population_std [0, 0, 0, 0, 0, 0, 0, 0, 0, 7]"
    by (simp add: zero_window_exact)
  have zlat: "m_responseTime ?z = Some 0"
    by (simp add: example_metric_def)
  have nw: "pruneOld 130000 (negative_window @ [?z]) = negative_window @ [?z]"
    using negative_window_pruned [of binary64] by (simp only: analyze_window)
  have nlen: "10 \<le> length (negative_window @ [?z])"
    by (simp add: negative_window_def)
  have nerr: "errorRateOf (negative_window @ [?z]) = 0"
    by (simp add: errorRateOf_def negative_window_def example_metric_def)
  have none: "fst (analyze binary64 130000 ?z negative_window) = None"
    using nlen by (simp add: analyze_cases Let_def nw nerr truthy_def zlat)
  have nexact: "0 > population_mean (replicate 16 (- 17) @ [0])
                    + 3 * population_std (replicate 16 (- 17) @ [0])"
    by (simp add: negative_window_exact)
  from spike lat exact none nlen nerr zlat nexact show ?thesis
    by (simp add: zero_window_pruned zero_window_latencies negative_window_pruned
        negative_window_latencies)
qed

subsection \<open>Pruning and warm-up\<close>

text \<open>
  Claim C6: the window after a call to \<open>analyze\<close> is the old window with the sample
  appended and then its leading entries removed for as long as they are more than 60
  seconds older than the clock; what remains is empty or starts with an entry that is
  not that old. When the timestamps are in chronological order this removes every entry
  older than 60 seconds and keeps all others. When fewer than ten samples remain, the
  call returns no signal.
\<close>

theorem pruning_and_warmup:
  "snd (analyze fp now metric w) = dropWhile (\<lambda>m. m_timestamp m < now - 60000) (w @ [metric])
   \<and> (snd (analyze fp now metric w) = [] \<or> now - 60000 \<le> m_timestamp (hd (snd (analyze fp now metric w))))
   \<and> (sorted (map m_timestamp (w @ [metric])) \<longrightarrow>
        snd (analyze fp now metric w) = filter (\<lambda>m. now - 60000 \<le> m_timestamp m) (w @ [metric]))
   \<and> (length (snd (analyze fp now metric w)) < 10 \<longrightarrow> fst (analyze fp now metric w) = None)"
proof -
  let ?old = "\<lambda>m. m_timestamp m < now - 60000"
  have a: "snd (analyze fp now metric w) = dropWhile ?old (w @ [metric])"
    by (simp add: analyze_window pruneOld_def Let_def WINDOW_MS_def shiftOld_dropWhile)
  have b: "dropWhile ?old (w @ [metric]) = [] \<or> \<not> ?old (hd (dropWhile ?old (w @ [metric])))"
    using hd_dropWhile [of ?old "w @ [metric]"] by blast
  have c: "sorted (map m_timestamp (w @ [metric])) \<longrightarrow>
        dropWhile ?old (w @ [metric]) = filter (\<lambda>m. now - 60000 \<le> m_timestamp m) (w @ [metric])"
    using dropWhile_sorted_filter [of m_timestamp "w @ [metric]" "now - 60000"]
    by (simp add: not_less)
  have d: "length (snd (analyze fp now metric w)) < 10 \<longrightarrow> fst (analyze fp now metric w) = None"
    using analyze_warmup by blast
  from a b c d show ?thesis by (simp add: not_less)
qed

theorem pruning_and_warmup_witness:
  "sorted (map m_timestamp ([example_metric 200 0 69000] @ [example_metric 200 0 129000]))
   \<and> snd (analyze binary64 130000 (example_metric 200 0 129000) [example_metric 200 0 69000])
       = [example_metric 200 0 129000]
   \<and> length (snd (analyze binary64 130000 (example_metric 200 0 129000) [example_metric 200 0 69000])) < 10
   \<and> fst (analyze binary64 130000 (example_metric 200 0 129000) [example_metric 200 0 69000]) = None"
proof -
  have s: "sorted (map m_timestamp ([example_metric 200 0 69000] @ [example_metric 200 0 129000]))"
    by (simp add: example_metric_def)
  from s show ?thesis
    using pruning_and_warmup [of binary64 130000 "example_metric 200 0 129000" "[example_metric 200 0 69000]"]
    by (simp add: example_metric_def)
qed

subsection \<open>Removing a target\<close>

text \<open>
  Claim C7, as amended: \<open>removeEndpoint\<close> removes the target's entry from the timer
  map and cancels that timer, and \<open>stopMonitoring\<close> clears the running flag, empties
  the timer map and cancels every timer in it; both leave the recorded histories and the
  cooldown timestamps as they were.
\<close>

theorem removal_keeps_history:
  "map_of (monitoringIntervals (removeEndpoint u s)) u = None
   \<and> (\<forall>h. map_of (monitoringIntervals s) u = Some h \<longrightarrow> h \<notin> fst ` set (timers (removeEndpoint u s)))
   \<and> endpointHistory (removeEndpoint u s) = endpointHistory s
   \<and> insightCache (removeEndpoint u s) = insightCache s
   \<and> \<not> isRunning (stopMonitoring s)
   \<and> monitoringIntervals (stopMonitoring s) = []
   \<and> (\<forall>h. map_of (monitoringIntervals s) u = Some h \<longrightarrow> h \<notin> fst ` set (timers (stopMonitoring s)))
   \<and> endpointHistory (stopMonitoring s) = endpointHistory s
   \<and> insightCache (stopMonitoring s) = insightCache s"
proof -
  have a: "map_of (monitoringIntervals (removeEndpoint u s)) u = None"
    by (simp add: removeEndpoint_def AList.delete_conv' split: option.splits)
  have b: "\<forall>h. map_of (monitoringIntervals s) u = Some h \<longrightarrow> h \<notin> fst ` set (timers (removeEndpoint u s))"
    by (auto simp add: removeEndpoint_def clearInterval_def)
  have c: "endpointHistory (removeEndpoint u s) = endpointHistory s"
          "insightCache (removeEndpoint u s) = insightCache s"
    by (simp_all add: removeEndpoint_def split: option.splits)
  have d: "\<not> isRunning (stopMonitoring s)" "monitoringIntervals (stopMonitoring s) = []"
          "endpointHistory (stopMonitoring s) = endpointHistory s"
          "insightCache (stopMonitoring s) = insightCache s"
    by (simp_all add: stopMonitoring_def)
  have e: "\<forall>h. map_of (monitoringIntervals s) u = Some h \<longrightarrow> h \<notin> fst ` set (timers (stopMonitoring s))"
  proof (intro allI impI)
    fix h assume "map_of (monitoringIntervals s) u = Some h"
    then have "(u, h) \<in> set (monitoringIntervals s)" by (rule map_of_SomeD)
    then have "h \<in> snd ` set (monitoringIntervals s)" by force
    then show "h \<notin> fst ` set (timers (stopMonitoring s))"
      using fold_clearInterval_notin by (simp add: stopMonitoring_def)
  qed
  from a b c d e show ?thesis by blast
qed

theorem removal_keeps_history_witness:
  "map_of (monitoringIntervals example_monitored) ''http://a.test/health'' = Some 0
   \<and> 0 \<notin> fst ` set (timers (removeEndpoint ''http://a.test/health'' example_monitored))
   \<and> 0 \<notin> fst ` set (timers (stopMonitoring example_monitored))
   \<and> endpointHistory (removeEndpoint ''http://a.test/health'' example_monitored)
       = [(''http://a.test/health'', [timeout_check])]
   \<and> insightCache (stopMonitoring example_monitored) = [(''http://a.test/health'', 1003000)]"
  using removal_keeps_history [of "''http://a.test/health''" example_monitored]
  by (simp add: example_monitored_eval)

text \<open>
  As the claim is written (removing a target or stopping the agent also destroys the
  target's history and cooldown timestamp) it fails: after one failed probe of a
  monitored target, both are still there after \<open>removeEndpoint\<close> and after
  \<open>stopMonitoring\<close>.
\<close>

theorem removal_destroys_counterexample:
  "map_of (endpointHistory (removeEndpoint ''http://a.test/health'' example_monitored))
      ''http://a.test/health'' = Some [timeout_check]
   \<and> map_of (insightCache (removeEndpoint ''http://a.test/health'' example_monitored))
      ''http://a.test/health'' = Some 1003000
   \<and> map_of (endpointHistory (stopMonitoring example_monitored))
      ''http://a.test/health'' = Some [timeout_check]
   \<and> map_of (insightCache (stopMonitoring example_monitored))
      ''http://a.test/health'' = Some 1003000"
  by (simp add: removeEndpoint_def stopMonitoring_def example_monitored_eval)

subsection \<open>Adding a target to a stopped agent\<close>

text \<open>
  Claim C8: on an agent that is not running, \<open>addEndpoint\<close> throws the error
  ``Agent is not running. Start monitoring first.'' and leaves the agent as it was; in
  particular no timer is created or registered.
\<close>

theorem addEndpoint_not_running:
  "\<not> isRunning s \<Longrightarrow>
     addEndpoint config s = (Inl (Error ''Agent is not running. Start monitoring first.''), s)
     \<and> timers (snd (addEndpoint config s)) = timers s
     \<and> monitoringIntervals (snd (addEndpoint config s)) = monitoringIntervals s"
  by (simp add: addEndpoint_def)

theorem addEndpoint_not_running_witness:
  "\<not> isRunning new_agent
   \<and> addEndpoint example_config new_agent
     = (Inl (Error ''Agent is not running. Start monitoring first.''), new_agent)
   \<and> timers (snd (addEndpoint example_config new_agent)) = []
   \<and> monitoringIntervals (snd (addEndpoint example_config new_agent)) = []"
  using addEndpoint_not_running [of new_agent example_config]
  by (simp add: new_agent_def)

subsection \<open>Persisted logs never raise the spike\<close>

text \<open>
  Claim C9: \<open>addHttpLog\<close> feeds the detector the log's status code and timestamp with
  the latency 0; with that latency \<open>analyze\<close> returns no signal or the critical
  high-error-rate signal, whatever the window; so a call of \<open>addHttpLog\<close> broadcasts
  nothing or one alert, of that kind.
\<close>

theorem persisted_logs_never_spike:
  "metricsWindow (snd (addHttpLog fp stamp now newLog st))
     = snd (analyze fp now \<lparr>statusCode = l_statusCode newLog, m_responseTime = Some 0, m_timestamp = stamp\<rparr>
              (metricsWindow st))
   \<and> (fst (analyze fp now \<lparr>statusCode = code, m_responseTime = Some 0, m_timestamp = t\<rparr> w) = None
        \<or> (\<exists>v. fst (analyze fp now \<lparr>statusCode = code, m_responseTime = Some 0, m_timestamp = t\<rparr> w)
                 = Some \<lparr>a_type = HIGH_ERROR_RATE, a_severity = ''critical'', a_value = v, baseline = None\<rparr>))
   \<and> (broadcasts (snd (addHttpLog fp stamp now newLog st)) = broadcasts st
        \<or> (\<exists>v. broadcasts (snd (addHttpLog fp stamp now newLog st)) = broadcasts st @
                 [\<lparr>b_event = ''AI_ALERT'',
                   b_anomaly = \<lparr>a_type = HIGH_ERROR_RATE, a_severity = ''critical'', a_value = v, baseline = None\<rparr>,
                   b_timestamp = stamp\<rparr>]))"
proof -
  have z: "fst (analyze fp now \<lparr>statusCode = c, m_responseTime = Some 0, m_timestamp = t'\<rparr> w') = None
        \<or> (\<exists>v. fst (analyze fp now \<lparr>statusCode = c, m_responseTime = Some 0, m_timestamp = t'\<rparr> w')
                 = Some \<lparr>a_type = HIGH_ERROR_RATE, a_severity = ''critical'', a_value = v, baseline = None\<rparr>)"
    for c t' w'
    by (simp add: analyze_cases Let_def truthy_def)
  let ?m = "\<lparr>statusCode = l_statusCode newLog, m_responseTime = Some 0, m_timestamp = stamp\<rparr>"
  obtain an w1 where aw: "analyze fp now ?m (metricsWindow st) = (an, w1)"
    by (cases "analyze fp now ?m (metricsWindow st)")
  have b: "broadcasts (snd (addHttpLog fp stamp now newLog st)) =
             broadcasts st @ (case an of None \<Rightarrow> []
               | Some a \<Rightarrow> [\<lparr>b_event = ''AI_ALERT'', b_anomaly = a, b_timestamp = stamp\<rparr>])"
    using aw by (simp add: addHttpLog_def Let_def split: option.splits)
  have m: "metricsWindow (snd (addHttpLog fp stamp now newLog st)) = w1"
    using aw by (simp add: addHttpLog_def Let_def split: option.splits)
  from z [of "l_statusCode newLog" stamp "metricsWindow st"] aw
  have "an = None \<or> (\<exists>v. an = Some \<lparr>a_type = HIGH_ERROR_RATE, a_severity = ''critical'', a_value = v, baseline = None\<rparr>)"
    by simp
  then have b': "broadcasts (snd (addHttpLog fp stamp now newLog st)) = broadcasts st
        \<or> (\<exists>v. broadcasts (snd (addHttpLog fp stamp now newLog st)) = broadcasts st @
                 [\<lparr>b_event = ''AI_ALERT'',
                   b_anomaly = \<lparr>a_type = HIGH_ERROR_RATE, a_severity = ''critical'', a_value = v, baseline = None\<rparr>,
                   b_timestamp = stamp\<rparr>])"
    unfolding b by auto
  from m aw b' z [of code t w] show ?thesis by simp
qed

subsection \<open>Statistics of a target\<close>

text \<open>
  Claim C10: \<open>getEndpointStats\<close> returns \<open>null\<close> exactly when the url has no history
  or an empty one. Otherwise it returns statistics whose \<open>recentChecks\<close> are the last
  \<open>min 10 (length history)\<close> entries of the history, in their order, and whose
  \<open>lastCheck\<close> is the last entry.
\<close>

theorem getEndpointStats_spec:
  "(getEndpointStats u s = None \<longleftrightarrow>
      map_of (endpointHistory s) u = None \<or> map_of (endpointHistory s) u = Some [])
   \<and> (\<forall>h. map_of (endpointHistory s) u = Some h \<and> h \<noteq> [] \<longrightarrow>
         (\<exists>st older. getEndpointStats u s = Some st
            \<and> h = older @ recentChecks st
            \<and> length (recentChecks st) = min 10 (length h)
            \<and> lastCheck st = last h))"
  using slice_last_suffix
  by (auto simp add: getEndpointStats_def Let_def slice_last_length last_conv_nth split: option.splits)

theorem getEndpointStats_spec_witness:
  "map_of (endpointHistory example_monitored) ''http://a.test/health'' = Some [timeout_check]
   \<and> [timeout_check] \<noteq> []
   \<and> (\<exists>st. getEndpointStats ''http://a.test/health'' example_monitored = Some st
         \<and> recentChecks st = [timeout_check] \<and> lastCheck st = timeout_check)
   \<and> getEndpointStats ''http://b.test/'' example_monitored = None"
proof -
  have h: "map_of (endpointHistory example_monitored) ''http://a.test/health'' = Some [timeout_check]"
    by (simp add: example_monitored_eval)
  have n: "map_of (endpointHistory example_monitored) ''http://b.test/'' = None"
    by (simp add: example_monitored_eval)
  have "\<exists>st older. getEndpointStats ''http://a.test/health'' example_monitored = Some st
            \<and> [timeout_check] = older @ recentChecks st
            \<and> length (recentChecks st) = min 10 (length [timeout_check])
            \<and> lastCheck st = last [timeout_check]"
    using getEndpointStats_spec [of "''http://a.test/health''" example_monitored] h by blast
  then obtain st older where st: "getEndpointStats ''http://a.test/health'' example_monitored = Some st"
      "[timeout_check] = older @ recentChecks st" "length (recentChecks st) = min 10 (length [timeout_check])"
      "lastCheck st = last [timeout_check]"
    by blast
  from st(2,3) have "recentChecks st = [timeout_check]"
    by (cases older) (simp_all add: Cons_eq_append_conv)
  with st h n getEndpointStats_spec [of "''http://b.test/''" example_monitored]
  show ?thesis by simp
qed

end
